theory Spec2Isabelle
  imports Complex_Main
begin

section \<open>JavaScript values of the provider store\<close>

text \<open>
  The settings page keeps the provider configuration in
  \<^verbatim>\<open>providers: RemovableRef<Record<string, any>>\<close>, so a record is an untyped
  JavaScript value. Numbers are only stored, read back and tested for truthiness
  here (no arithmetic), so a finite number is a \<open>real\<close> and \<open>NaN\<close> is a value of its
  own. An object is its list of properties; the object it denotes is \<open>map_of\<close> of
  the list (the first entry of a key is the property).
\<close>

datatype jsval =
    JUndefined
  | JNull
  | JBool bool
  | JNum real
  | JNaN
  | JStr string
  | JObj "(string \<times> jsval) list"

type_synonym jsobj = "(string \<times> jsval) list"

datatype js_error = TypeError

text \<open>\<^verbatim>\<open>!x\<close> is \<open>\<not> truthy x\<close>: the falsy values are undefined, null, false, 0, NaN and ''.\<close>

fun truthy :: "jsval \<Rightarrow> bool" where
  "truthy JUndefined = False"
| "truthy JNull = False"
| "truthy (JBool b) = b"
| "truthy (JNum x) = (x \<noteq> 0)"
| "truthy JNaN = False"
| "truthy (JStr s) = (s \<noteq> [])"
| "truthy (JObj ps) = True"

fun nullish :: "jsval \<Rightarrow> bool" where
  "nullish JUndefined = True"
| "nullish JNull = True"
| "nullish v = False"

text \<open>\<^verbatim>\<open>a || b\<close> and \<^verbatim>\<open>a ?? b\<close>.\<close>

definition js_or :: "jsval \<Rightarrow> jsval \<Rightarrow> jsval" where
  "js_or a b = (if truthy a then a else b)"

definition js_coalesce :: "jsval \<Rightarrow> jsval \<Rightarrow> jsval" where
  "js_coalesce a b = (if nullish a then b else a)"

text \<open>\<^verbatim>\<open>a !== false\<close>.\<close>

definition js_not_false :: "jsval \<Rightarrow> jsval" where
  "js_not_false a = JBool (a \<noteq> JBool False)"

text \<open>\<^verbatim>\<open>o[k]\<close> on an object: a missing property reads as undefined.\<close>

definition lookup :: "jsobj \<Rightarrow> string \<Rightarrow> jsval" where
  "lookup ps k = (case map_of ps k of Some v \<Rightarrow> v | None \<Rightarrow> JUndefined)"

text \<open>
  \<^verbatim>\<open>o[k] = v\<close> on an object: an existing property is overwritten in place, a new
  one is appended.
\<close>

fun put :: "jsobj \<Rightarrow> string \<Rightarrow> jsval \<Rightarrow> jsobj" where
  "put [] k v = [(k, v)]"
| "put ((k', v') # ps) k v = (if k' = k then (k, v) # ps else (k', v') # put ps k v)"

text \<open>
  Reading a property of a value that is not null or undefined. None of the keys
  the page reads (apiKey, baseUrl, voiceSettings and the five voice settings) is
  a property of a boxed string, number or boolean, so a primitive yields
  undefined.
\<close>

fun prop_of :: "jsval \<Rightarrow> string \<Rightarrow> jsval" where
  "prop_of (JObj ps) k = lookup ps k"
| "prop_of v k = JUndefined"

text \<open>\<^verbatim>\<open>v?.k\<close> never throws; \<^verbatim>\<open>v.k\<close> throws a TypeError on null and undefined.\<close>

definition opt_member :: "jsval \<Rightarrow> string \<Rightarrow> jsval" where
  "opt_member v k = (if nullish v then JUndefined else prop_of v k)"

definition member :: "jsval \<Rightarrow> string \<Rightarrow> js_error + jsval" where
  "member v k = (if nullish v then Inl TypeError else Inr (prop_of v k))"

text \<open>
  \<^verbatim>\<open>v.k = x\<close> in strict mode (the script of a single-file component is a module):
  only an object takes the property; null, undefined and every primitive throw a
  TypeError.
\<close>

fun assign_member :: "jsval \<Rightarrow> string \<Rightarrow> jsval \<Rightarrow> js_error + jsval" where
  "assign_member (JObj ps) k x = Inr (JObj (put ps k x))"
| "assign_member v k x = Inl TypeError"

section \<open>The state of the ElevenLabs settings page\<close>

text \<open>
  \<^verbatim>\<open>providersStore.getProviderMetadata\<close> belongs to the providers store, whose
  source is not part of the page; the page reads \<open>localizedName\<close>, \<open>icon\<close> and
  \<open>defaultOptions\<close> of its result, the last one an optional object.
\<close>

record ProviderMetadata =
  localizedName :: string
  icon :: string
  defaultOptions :: "jsobj option"

text \<open>The refs of the page: the store's \<open>providers\<close> and the playground's own state.\<close>

record page =
  providers :: jsobj
  providerMetadata :: "ProviderMetadata option"
  testText :: string
  isGenerating :: bool
  audioUrl :: string
  errorMessage :: string
  selectedLanguage :: string
  selectedVoice :: string
  advancedVisible :: bool

definition providerId :: string where
  "providerId = ''elevenlabs''"

text \<open>\<^verbatim>\<open>providerMetadata.value?.defaultOptions?.baseUrl\<close>\<close>

definition default_baseUrl :: "page \<Rightarrow> jsval" where
  "default_baseUrl s =
     (case providerMetadata s of
        None \<Rightarrow> JUndefined
      | Some m \<Rightarrow> (case defaultOptions m of None \<Rightarrow> JUndefined | Some d \<Rightarrow> lookup d ''baseUrl''))"

subsection \<open>The computed getters\<close>

text \<open>\<^verbatim>\<open>providers.value[providerId]\<close>\<close>

definition provider_record :: "page \<Rightarrow> jsval" where
  "provider_record s = lookup (providers s) providerId"

text \<open>\<^verbatim>\<open>providers.value[providerId]?.voiceSettings\<close>\<close>

definition voice_record :: "page \<Rightarrow> jsval" where
  "voice_record s = opt_member (provider_record s) ''voiceSettings''"

definition apiKey_get :: "page \<Rightarrow> jsval" where
  "apiKey_get s = js_or (opt_member (provider_record s) ''apiKey'') (JStr '''')"

definition baseUrl_get :: "page \<Rightarrow> jsval" where
  "baseUrl_get s =
     js_or (js_or (opt_member (provider_record s) ''baseUrl'') (default_baseUrl s)) (JStr '''')"

definition similarityBoost_get :: "page \<Rightarrow> jsval" where
  "similarityBoost_get s = js_coalesce (opt_member (voice_record s) ''similarityBoost'') (JNum 0.75)"

definition stability_get :: "page \<Rightarrow> jsval" where
  "stability_get s = js_coalesce (opt_member (voice_record s) ''stability'') (JNum 0.5)"

definition speed_get :: "page \<Rightarrow> jsval" where
  "speed_get s = js_coalesce (opt_member (voice_record s) ''speed'') (JNum 1.0)"

definition style_get :: "page \<Rightarrow> jsval" where
  "style_get s = js_coalesce (opt_member (voice_record s) ''style'') (JNum 0)"

definition useSpeakerBoost_get :: "page \<Rightarrow> jsval" where
  "useSpeakerBoost_get s = js_not_false (opt_member (voice_record s) ''useSpeakerBoost'')"

subsection \<open>The computed setters\<close>

text \<open>
  Every setter starts with
  \<^verbatim>\<open>if (!providers.value[providerId]) providers.value[providerId] = {}\<close>.
\<close>

definition init_record :: "jsobj \<Rightarrow> jsobj" where
  "init_record ps = (if \<not> truthy (lookup ps providerId) then put ps providerId (JObj []) else ps)"

text \<open>
  \<^verbatim>\<open>providers.value[providerId].k = x\<close>. The record is mutated in place; with
  values instead of references the changed record is stored back under the same
  key.
\<close>

definition set_record_field :: "jsobj \<Rightarrow> string \<Rightarrow> jsval \<Rightarrow> js_error + jsobj" where
  "set_record_field ps k x =
     (case assign_member (lookup ps providerId) k x of
        Inl e \<Rightarrow> Inl e
      | Inr r \<Rightarrow> Inr (put ps providerId r))"

text \<open>
  \<^verbatim>\<open>if (!providers.value[providerId].voiceSettings)
    providers.value[providerId].voiceSettings = {}\<close>
\<close>

definition init_voiceSettings :: "jsobj \<Rightarrow> js_error + jsobj" where
  "init_voiceSettings ps =
     (case member (lookup ps providerId) ''voiceSettings'' of
        Inl e \<Rightarrow> Inl e
      | Inr vs \<Rightarrow> if \<not> truthy vs then set_record_field ps ''voiceSettings'' (JObj []) else Inr ps)"

text \<open>\<^verbatim>\<open>providers.value[providerId].voiceSettings.k = x\<close>\<close>

definition set_voice_field :: "jsobj \<Rightarrow> string \<Rightarrow> jsval \<Rightarrow> js_error + jsobj" where
  "set_voice_field ps k x =
     (case member (lookup ps providerId) ''voiceSettings'' of
        Inl e \<Rightarrow> Inl e
      | Inr vs \<Rightarrow>
          (case assign_member vs k x of
             Inl e \<Rightarrow> Inl e
           | Inr vs' \<Rightarrow> set_record_field ps ''voiceSettings'' vs'))"

definition commit :: "page \<Rightarrow> js_error + jsobj \<Rightarrow> js_error + page" where
  "commit s r = (case r of Inl e \<Rightarrow> Inl e | Inr ps \<Rightarrow> Inr (s\<lparr>providers := ps\<rparr>))"

definition apiKey_set :: "page \<Rightarrow> jsval \<Rightarrow> js_error + page" where
  "apiKey_set s x = commit s (set_record_field (init_record (providers s)) ''apiKey'' x)"

definition baseUrl_set :: "page \<Rightarrow> jsval \<Rightarrow> js_error + page" where
  "baseUrl_set s x = commit s (set_record_field (init_record (providers s)) ''baseUrl'' x)"

definition similarityBoost_set :: "page \<Rightarrow> jsval \<Rightarrow> js_error + page" where
  "similarityBoost_set s x =
     commit s (case init_voiceSettings (init_record (providers s)) of
                Inl e \<Rightarrow> Inl e
              | Inr ps \<Rightarrow> set_voice_field ps ''similarityBoost'' x)"

definition stability_set :: "page \<Rightarrow> jsval \<Rightarrow> js_error + page" where
  "stability_set s x =
     commit s (case init_voiceSettings (init_record (providers s)) of
                Inl e \<Rightarrow> Inl e
              | Inr ps \<Rightarrow> set_voice_field ps ''stability'' x)"

definition speed_set :: "page \<Rightarrow> jsval \<Rightarrow> js_error + page" where
  "speed_set s x =
     commit s (case init_voiceSettings (init_record (providers s)) of
                Inl e \<Rightarrow> Inl e
              | Inr ps \<Rightarrow> set_voice_field ps ''speed'' x)"

text \<open>
  The setter of \<open>style\<close> prepares \<open>voiceSettings\<close> like its siblings and then
  assigns \<^verbatim>\<open>providers.value[providerId].style = value\<close>, on the record itself.
\<close>

definition style_set :: "page \<Rightarrow> jsval \<Rightarrow> js_error + page" where
  "style_set s x =
     commit s (case init_voiceSettings (init_record (providers s)) of
                Inl e \<Rightarrow> Inl e
              | Inr ps \<Rightarrow> set_record_field ps ''style'' x)"

definition useSpeakerBoost_set :: "page \<Rightarrow> jsval \<Rightarrow> js_error + page" where
  "useSpeakerBoost_set s x =
     commit s (case init_voiceSettings (init_record (providers s)) of
                Inl e \<Rightarrow> Inl e
              | Inr ps \<Rightarrow> set_voice_field ps ''useSpeakerBoost'' x)"

subsection \<open>Reset\<close>

text \<open>
  \<^verbatim>\<open>providers.value[providerId] = { ...(providerMetadata.value?.defaultOptions as any) }\<close>:
  the spread of undefined is the empty object. The spread is a shallow copy: an
  object nested in the default options (a \<open>voiceSettings\<close>, if they have one) is
  afterwards one object, held by the record and by the metadata, and a later
  write into it through the record changes the default as well. The model holds
  values, not references: it follows the record, which is all the getters and
  setters read and write, and leaves the metadata as it was.
\<close>

definition spread_defaultOptions :: "page \<Rightarrow> jsobj" where
  "spread_defaultOptions s =
     (case providerMetadata s of
        None \<Rightarrow> []
      | Some m \<Rightarrow> (case defaultOptions m of None \<Rightarrow> [] | Some d \<Rightarrow> d))"

definition handleResetVoiceSettings :: "page \<Rightarrow> page" where
  "handleResetVoiceSettings s =
     s\<lparr>providers := put (providers s) providerId (JObj (spread_defaultOptions s))\<rparr>"

subsection \<open>The effective configuration\<close>

text \<open>
  The values the watcher writes back and \<open>generateTestSpeech\<close> passes to the
  provider: the seven computed properties.
\<close>

record EffectiveConfig =
  eff_apiKey :: jsval
  eff_baseUrl :: jsval
  eff_similarityBoost :: jsval
  eff_stability :: jsval
  eff_speed :: jsval
  eff_style :: jsval
  eff_useSpeakerBoost :: jsval

definition effective_config :: "page \<Rightarrow> EffectiveConfig" where
  "effective_config s =
     \<lparr> eff_apiKey = apiKey_get s,
       eff_baseUrl = baseUrl_get s,
       eff_similarityBoost = similarityBoost_get s,
       eff_stability = stability_get s,
       eff_speed = speed_get s,
       eff_style = style_get s,
       eff_useSpeakerBoost = useSpeakerBoost_get s \<rparr>"

text \<open>A page whose store holds the given provider records.\<close>

definition page_of :: "jsobj \<Rightarrow> ProviderMetadata option \<Rightarrow> page" where
  "page_of ps md =
     \<lparr> providers = ps, providerMetadata = md,
       testText = ''Hello! This is a test of the ElevenLabs voice synthesis.'',
       isGenerating = False, audioUrl = [], errorMessage = [],
       selectedLanguage = [], selectedVoice = [], advancedVisible = False \<rparr>"

subsection \<open>The playground\<close>

text \<open>
  \<^verbatim>\<open>!testText.value.trim()\<close>: the trimmed text is empty when every character is white
  space. The characters of a \<open>string\<close> are bytes, so the white space is that of
  ASCII (tab, line feed, vertical tab, form feed, carriage return, space).
\<close>

definition js_whitespace :: "char \<Rightarrow> bool" where
  "js_whitespace c = (c \<in> {CHR 0x09, CHR 0x0A, CHR 0x0B, CHR 0x0C, CHR 0x0D, CHR '' ''})"

definition blank :: "string \<Rightarrow> bool" where
  "blank t = list_all js_whitespace t"

text \<open>
  What \<open>generateTestSpeech\<close> hands to \<open>generateSpeech\<close>: the model, the five
  computed voice settings, the text and the selected voice (the key it looks up
  in \<open>voiceMap\<close>).
\<close>

record speech_request =
  req_model :: string
  req_stability :: jsval
  req_similarityBoost :: jsval
  req_speed :: jsval
  req_style :: jsval
  req_useSpeakerBoost :: jsval
  req_input :: string
  req_voice :: string

text \<open>
  The call of the provider is outside the repository: it yields the response, or
  throws an \<open>Error\<close> with a message, or throws something else.
\<close>

datatype speech_result = SpeechResponse string | SpeechError string | SpeechThrew

text \<open>What the page does besides changing its refs.\<close>

datatype effect =
    ConsoleError string
  | PauseAudio
  | RevokeObjectURL string
  | GenerateSpeech speech_request
  | PlayAfter nat

text \<open>
  The surroundings of the playground are parameters: the provider's answer to a
  request, \<^verbatim>\<open>URL.createObjectURL(new Blob([response]))\<close>, and whether the audio
  element of the template is mounted.
\<close>

record 'i speech_env =
  speech :: "'i \<Rightarrow> speech_request \<Rightarrow> speech_result"
  createObjectURL :: "string \<Rightarrow> string"
  audioPlayer :: bool

definition stopTestAudio :: "'i speech_env \<Rightarrow> page \<Rightarrow> page \<times> effect list" where
  "stopTestAudio env s =
     (let paused = (if audioPlayer env then [PauseAudio] else [])
      in if audioUrl s \<noteq> [] then (s\<lparr>audioUrl := []\<rparr>, paused @ [RevokeObjectURL (audioUrl s)])
         else (s, paused))"

definition speech_request_of :: "page \<Rightarrow> speech_request" where
  "speech_request_of s =
     \<lparr> req_model = ''eleven_multilingual_v2'',
       req_stability = stability_get s,
       req_similarityBoost = similarityBoost_get s,
       req_speed = speed_get s,
       req_style = style_get s,
       req_useSpeakerBoost = useSpeakerBoost_get s,
       req_input = testText s,
       req_voice = selectedVoice s \<rparr>"

text \<open>
  \<open>generateTestSpeech\<close>, given what \<^verbatim>\<open>providersStore.getProviderInstance(providerId)\<close>
  returned: an instance, or nothing (a falsy value).
\<close>

definition generateTestSpeech :: "'i speech_env \<Rightarrow> 'i option \<Rightarrow> page \<Rightarrow> page \<times> effect list" where
  "generateTestSpeech env provider s =
     (if blank (testText s) then (s, [])
      else
        (case provider of
           None \<Rightarrow> (s, [ConsoleError ''Failed to initialize speech provider''])
         | Some i \<Rightarrow>
             (let s1 = s\<lparr>isGenerating := True, errorMessage := []\<rparr>;
                  stopped = (if audioUrl s1 \<noteq> [] then stopTestAudio env s1 else (s1, []));
                  s2 = fst stopped;
                  request = speech_request_of s2
              in case speech env i request of
                   SpeechResponse blob \<Rightarrow>
                     (s2\<lparr>audioUrl := createObjectURL env blob, isGenerating := False\<rparr>,
                      snd stopped @ [GenerateSpeech request, PlayAfter 100])
                 | SpeechError msg \<Rightarrow>
                     (s2\<lparr>errorMessage := msg, isGenerating := False\<rparr>,
                      snd stopped @ [GenerateSpeech request, ConsoleError ''Error generating speech:''])
                 | SpeechThrew \<Rightarrow>
                     (s2\<lparr>errorMessage := ''An unknown error occurred'', isGenerating := False\<rparr>,
                      snd stopped @ [GenerateSpeech request, ConsoleError ''Error generating speech:'']))))"

section \<open>The llm store\<close>

text \<open>
  \<open>OpenAIProviderSettings\<close> comes from the SDK; of its optional fields the model
  keeps the credential and the endpoint.
\<close>

record OpenAIProviderSettings =
  settings_apiKey :: "string option"
  settings_baseURL :: "string option"

text \<open>
  What a call does: it returns a value, or it throws an \<open>Error\<close> with a message
  (for an async function: the promise is rejected with it).
\<close>

datatype 'a outcome = Returned 'a | Thrown string

fun is_returned :: "'a outcome \<Rightarrow> bool" where
  "is_returned (Returned x) = True"
| "is_returned (Thrown e) = False"

text \<open>
  The two refs of the store, both undefined at first. \<open>'c\<close> is the SDK's client
  object, \<open>'p\<close> the provider function made by \<open>createOpenAI\<close>.
\<close>

record ('c, 'p) llm =
  openAI :: "'c option"
  openAIProvider :: "'p option"

definition llm_initial :: "('c, 'p) llm" where
  "llm_initial = \<lparr> openAI = None, openAIProvider = None \<rparr>"

text \<open>
  The SDK's constructors are outside the repository and may throw, so they are
  parameters: \<open>new_OpenAI options dangerouslyAllowBrowser\<close> and
  \<open>createOpenAI options\<close>.
\<close>

record ('c, 'p) openai_sdk =
  new_OpenAI :: "OpenAIProviderSettings \<Rightarrow> bool \<Rightarrow> 'c outcome"
  createOpenAI :: "OpenAIProviderSettings \<Rightarrow> 'p outcome"

definition setupOpenAI ::
  "('c, 'p) openai_sdk \<Rightarrow> ('c, 'p) llm \<Rightarrow> OpenAIProviderSettings \<Rightarrow> unit outcome \<times> ('c, 'p) llm" where
  "setupOpenAI sdk s options =
     (case new_OpenAI sdk options True of
        Thrown e \<Rightarrow> (Thrown e, s)
      | Returned c \<Rightarrow>
          (case createOpenAI sdk options of
             Thrown e \<Rightarrow> (Thrown e, s\<lparr>openAI := Some c\<rparr>)
           | Returned p \<Rightarrow> (Returned (), s\<lparr>openAI := Some c, openAIProvider := Some p\<rparr>)))"

text \<open>
  \<open>stream\<close> and \<open>models\<close> check their ref and hand the request to the SDK; the
  request they hand over stands for its result. Neither assigns a ref.
\<close>

datatype ('c, 'p) llm_request =
    StreamText 'p string "(string \<times> string) list"
  | ModelsList 'c

definition stream :: "('c, 'p) llm \<Rightarrow> string \<Rightarrow> string \<Rightarrow> ('c, 'p) llm_request outcome" where
  "stream s model content =
     (case openAIProvider s of
        None \<Rightarrow> Thrown ''OpenAI not initialized''
      | Some p \<Rightarrow> Returned (StreamText p model [(''user'', content)]))"

definition models :: "('c, 'p) llm \<Rightarrow> ('c, 'p) llm_request outcome" where
  "models s =
     (case openAI s of
        None \<Rightarrow> Thrown ''OpenAI not initialized''
      | Some c \<Rightarrow> Returned (ModelsList c))"

text \<open>A sequence of calls of \<open>setupOpenAI\<close>, each on the store the last one left.\<close>

fun setupOpenAI_each ::
  "('c, 'p) openai_sdk \<Rightarrow> ('c, 'p) llm \<Rightarrow> OpenAIProviderSettings list \<Rightarrow> ('c, 'p) llm" where
  "setupOpenAI_each sdk s [] = s"
| "setupOpenAI_each sdk s (options # rest) =
     setupOpenAI_each sdk (snd (setupOpenAI sdk s options)) rest"

text \<open>An SDK whose client constructor throws on options without an apiKey.\<close>

definition sdk_requires_apiKey :: "('c, 'p) openai_sdk \<Rightarrow> bool" where
  "sdk_requires_apiKey sdk =
     (\<forall>options. settings_apiKey options = None \<longrightarrow> \<not> is_returned (new_OpenAI sdk options True))"

section \<open>The instance cache\<close>

text \<open>
  Modelled from the spec: the Instance Cache (\<open>getInstance\<close>, section 4.4) and the
  Configuration Store's \<open>update\<close> (section 4.2). The page calls
  \<^verbatim>\<open>providersStore.getProviderInstance(providerId)\<close>, whose source is not part
  of the page or of the llm store. The catalog, the resolver, the test whether
  the resolved apiKey is unset and the fingerprint are parameters; an instance
  carries the number of the construction that made it, which is its identity.
\<close>

datatype failure = NotFound | NotConfigured

record 'e ProviderInstance =
  instance_ref :: nat
  instance_config :: 'e

record ('d, 'p, 'e, 'f) resolver =
  getDescriptor :: "string \<Rightarrow> 'd option"
  resolve :: "'d \<Rightarrow> 'p option \<Rightarrow> 'e"
  apiKey_unset :: "'e \<Rightarrow> bool"
  fingerprint :: "'e \<Rightarrow> 'f"

record ('p, 'e, 'f) registry =
  persisted :: "string \<Rightarrow> 'p option"
  cache :: "string \<Rightarrow> ('f \<times> 'e ProviderInstance) option"
  constructed :: nat

definition registry_initial :: "('p, 'e, 'f) registry" where
  "registry_initial = \<lparr> persisted = (\<lambda>p. None), cache = (\<lambda>p. None), constructed = 0 \<rparr>"

text \<open>
  Modelled from the spec: step 5 of \<open>getInstance\<close>, which constructs a new instance
  from the effective configuration and replaces the cached entry.
\<close>

definition construct ::
  "string \<Rightarrow> 'e \<Rightarrow> 'f \<Rightarrow> ('p, 'e, 'f) registry
     \<Rightarrow> (failure + 'e ProviderInstance) \<times> ('p, 'e, 'f) registry" where
  "construct pid eff fp reg =
     (let inst = \<lparr> instance_ref = constructed reg, instance_config = eff \<rparr>
      in (Inr inst,
          reg\<lparr>cache := (cache reg)(pid := Some (fp, inst)),
              constructed := Suc (constructed reg)\<rparr>))"

text \<open>
  Modelled from the spec: \<open>getInstance\<close>, steps 1 to 5 of section 4.4, in place of
  the providers store's \<open>getProviderInstance\<close>.
\<close>

definition getInstance ::
  "('d, 'p, 'e, 'f) resolver \<Rightarrow> string \<Rightarrow> ('p, 'e, 'f) registry
     \<Rightarrow> (failure + 'e ProviderInstance) \<times> ('p, 'e, 'f) registry" where
  "getInstance R pid reg =
     (case getDescriptor R pid of
        None \<Rightarrow> (Inl NotFound, reg)
      | Some d \<Rightarrow>
          (let eff = resolve R d (persisted reg pid) in
           if apiKey_unset R eff then (Inl NotConfigured, reg)
           else
             (let fp = fingerprint R eff in
              case cache reg pid of
                Some (fp', inst) \<Rightarrow> if fp' = fp then (Inr inst, reg) else construct pid eff fp reg
              | None \<Rightarrow> construct pid eff fp reg)))"

text \<open>
  Modelled from the spec: \<open>update\<close> of section 4.2, which merges the partial
  record into the persisted one (the merge is a parameter) and signals the
  invalidation of that provider's cached instance.
\<close>

definition update_config ::
  "('p option \<Rightarrow> 'u \<Rightarrow> 'p) \<Rightarrow> string \<Rightarrow> 'u \<Rightarrow> ('p, 'e, 'f) registry \<Rightarrow> ('p, 'e, 'f) registry" where
  "update_config merge pid partial reg =
     reg\<lparr>persisted := (persisted reg)(pid := Some (merge (persisted reg pid) partial)),
         cache := (cache reg)(pid := None)\<rparr>"

text \<open>Every cached instance was made by one of the constructions counted so far.\<close>

definition cache_refs_used :: "('p, 'e, 'f) registry \<Rightarrow> bool" where
  "cache_refs_used reg =
     (\<forall>pid fp inst. cache reg pid = Some (fp, inst) \<longrightarrow> instance_ref inst < constructed reg)"

section \<open>Auxiliary notions of the claims\<close>

fun is_object :: "jsval \<Rightarrow> bool" where
  "is_object (JObj ps) = True"
| "is_object v = False"

text \<open>The shapes a setter may find: the record, and its voice settings, missing or an object.\<close>

definition record_absent_or_object :: "page \<Rightarrow> bool" where
  "record_absent_or_object s = (\<not> truthy (provider_record s) \<or> is_object (provider_record s))"

definition voiceSettings_absent_or_object :: "page \<Rightarrow> bool" where
  "voiceSettings_absent_or_object s = (\<not> truthy (voice_record s) \<or> is_object (voice_record s))"

text \<open>
  The priority of the base URL in the words of the specification: the persisted
  override if present, otherwise the descriptor's default if present, otherwise
  the empty string. A field is present when it holds a value.
\<close>

definition present :: "jsval \<Rightarrow> bool" where
  "present v = (\<not> nullish v)"

definition baseUrl_priority_spec :: "page \<Rightarrow> jsval" where
  "baseUrl_priority_spec s =
     (if present (opt_member (provider_record s) ''baseUrl'')
      then opt_member (provider_record s) ''baseUrl''
      else if present (default_baseUrl s) then default_baseUrl s
      else JStr [])"

text \<open>Clamping in the words of the specification: the nearest bound of \<open>[lo, hi]\<close>.\<close>

definition clamp_spec :: "real \<Rightarrow> real \<Rightarrow> real \<Rightarrow> real" where
  "clamp_spec lo hi x = (if x < lo then lo else if hi < x then hi else x)"

subsection \<open>Example states\<close>

definition example_metadata :: ProviderMetadata where
  "example_metadata =
     \<lparr> localizedName = ''ElevenLabs'', icon = ''i-example:icon'',
       defaultOptions = Some [(''baseUrl'', JStr ''https://api.example/v1/'')] \<rparr>"

definition empty_page :: page where
  "empty_page = page_of [] None"

definition partial_voice_page :: page where
  "partial_voice_page =
     page_of [(''elevenlabs'', JObj [(''voiceSettings'', JObj [(''stability'', JNum 0.8)])])] None"

definition fast_speed_page :: page where
  "fast_speed_page =
     page_of [(''elevenlabs'', JObj [(''voiceSettings'', JObj [(''speed'', JNum 5.0)])])] None"

definition keyed_page :: page where
  "keyed_page =
     page_of [(''elevenlabs'',
               JObj [(''apiKey'', JStr ''k''),
                     (''voiceSettings'', JObj [(''stability'', JNum 0.9)])])]
             (Some example_metadata)"

definition empty_baseUrl_page :: page where
  "empty_baseUrl_page =
     page_of [(''elevenlabs'', JObj [(''baseUrl'', JStr [])])] (Some example_metadata)"

definition custom_baseUrl_page :: page where
  "custom_baseUrl_page =
     page_of [(''elevenlabs'', JObj [(''baseUrl'', JStr ''https://proxy.example/v1/'')])]
             (Some example_metadata)"

definition busy_page :: page where
  "busy_page =
     \<lparr> providers = [(''openai'', JObj [(''apiKey'', JStr ''sk-other'')]),
                     (''elevenlabs'', JObj [(''voiceSettings'', JObj [(''stability'', JNum 0.8)])])],
       providerMetadata = None,
       testText = ''Good morning'', isGenerating = True, audioUrl = ''blob:1'',
       errorMessage = ''An unknown error occurred'', selectedLanguage = ''en-US'',
       selectedVoice = ''Myriam'', advancedVisible = True \<rparr>"

text \<open>
  A small instance of the cache's parameters: one registered provider, whose
  persisted configuration is its apiKey and whose effective configuration is that
  apiKey or unset.
\<close>

definition example_resolver :: "(unit, string, string option, string option) resolver" where
  "example_resolver =
     \<lparr> getDescriptor = (\<lambda>pid. if pid = ''elevenlabs'' then Some () else None),
       resolve = (\<lambda>d p. p),
       apiKey_unset = (\<lambda>e. e = None),
       fingerprint = (\<lambda>e. e) \<rparr>"

definition example_merge :: "string option \<Rightarrow> string \<Rightarrow> string" where
  "example_merge old new = new"

definition configured_registry :: "(string, string option, string option) registry" where
  "configured_registry = update_config example_merge ''elevenlabs'' ''k'' registry_initial"

text \<open>
  An SDK whose client constructor refuses options without an apiKey, and such
  options.
\<close>

definition strict_sdk :: "(string, string) openai_sdk" where
  "strict_sdk =
     \<lparr> new_OpenAI = (\<lambda>options browser.
         case settings_apiKey options of None \<Rightarrow> Thrown ''missing apiKey'' | Some k \<Rightarrow> Returned k),
       createOpenAI = (\<lambda>options.
         case settings_apiKey options of None \<Rightarrow> Returned [] | Some k \<Rightarrow> Returned k) \<rparr>"

definition no_key_options :: OpenAIProviderSettings where
  "no_key_options = \<lparr> settings_apiKey = None, settings_baseURL = None \<rparr>"

text \<open>An SDK that accepts any options, and a playground whose provider echoes the text.\<close>

definition lenient_sdk :: "(string option, string option) openai_sdk" where
  "lenient_sdk =
     \<lparr> new_OpenAI = (\<lambda>options browser. Returned (settings_apiKey options)),
       createOpenAI = (\<lambda>options. Returned (settings_apiKey options)) \<rparr>"

definition echo_env :: "string speech_env" where
  "echo_env =
     \<lparr> speech = (\<lambda>i request. SpeechResponse (req_input request)),
       createObjectURL = (\<lambda>blob. ''blob:'' @ blob),
       audioPlayer = False \<rparr>"

text \<open>Stores whose record, or whose voice settings, is a primitive value.\<close>

definition legacy_page :: page where
  "legacy_page = page_of [(''elevenlabs'', JStr ''legacy'')] None"

definition flagged_voice_page :: page where
  "flagged_voice_page = page_of [(''elevenlabs'', JObj [(''voiceSettings'', JBool True)])] None"

section \<open>Properties of the settings page\<close>

lemma lookup_put: "lookup (put ps k v) k' = (if k' = k then v else lookup ps k')"
  by (induction ps) (auto simp: lookup_def)

lemma is_object_iff: "is_object v \<longleftrightarrow> (\<exists>ps. v = JObj ps)"
  by (cases v) auto

lemma opt_member_obj: "opt_member (JObj ps) k = lookup ps k"
  by (simp add: opt_member_def)

lemma opt_member_falsy: "\<not> truthy v \<Longrightarrow> opt_member v k = JUndefined"
  by (cases v) (auto simp: opt_member_def)

lemma example_records:
  "voice_record partial_voice_page = JObj [(''stability'', JNum 0.8)]"
  "voice_record fast_speed_page = JObj [(''speed'', JNum 5.0)]"
  "provider_record empty_page = JUndefined"
  "voice_record empty_page = JUndefined"
  by (simp_all add: partial_voice_page_def fast_speed_page_def empty_page_def voice_record_def
        provider_record_def page_of_def providerId_def lookup_def opt_member_def)

text \<open>
  Claim C1. When the persisted record has a voice-settings object, every voice
  setting is resolved on its own: a field the object does not supply resolves to
  the default of its getter (similarityBoost 0.75, stability 0.5, speed 1.0,
  style 0, useSpeakerBoost true), whatever the other fields hold, and a supplied
  field resolves to the supplied value. With only \<open>stability = 0.8\<close> persisted the
  effective values are \<open>stability = 0.8\<close> and \<open>speed = 1.0\<close>.
\<close>

theorem voice_settings_merge_per_field:
  assumes "voice_record s = JObj vs"
  shows "(lookup vs ''similarityBoost'' = JUndefined \<longrightarrow> similarityBoost_get s = JNum 0.75)
       \<and> (lookup vs ''stability'' = JUndefined \<longrightarrow> stability_get s = JNum 0.5)
       \<and> (lookup vs ''speed'' = JUndefined \<longrightarrow> speed_get s = JNum 1.0)
       \<and> (lookup vs ''style'' = JUndefined \<longrightarrow> style_get s = JNum 0)
       \<and> (lookup vs ''useSpeakerBoost'' = JUndefined \<longrightarrow> useSpeakerBoost_get s = JBool True)
       \<and> (\<not> nullish (lookup vs ''similarityBoost'') \<longrightarrow> similarityBoost_get s = lookup vs ''similarityBoost'')
       \<and> (\<not> nullish (lookup vs ''stability'') \<longrightarrow> stability_get s = lookup vs ''stability'')
       \<and> (\<not> nullish (lookup vs ''speed'') \<longrightarrow> speed_get s = lookup vs ''speed'')
       \<and> (\<not> nullish (lookup vs ''style'') \<longrightarrow> style_get s = lookup vs ''style'')
       \<and> (\<forall>b. lookup vs ''useSpeakerBoost'' = JBool b \<longrightarrow> useSpeakerBoost_get s = JBool b)"
  using assms
  by (simp add: similarityBoost_get_def stability_get_def speed_get_def style_get_def
        useSpeakerBoost_get_def opt_member_obj js_coalesce_def js_not_false_def)

theorem voice_settings_merge_per_field_witness:
  "voice_record partial_voice_page = JObj [(''stability'', JNum 0.8)]
   \<and> stability_get partial_voice_page = JNum 0.8
   \<and> speed_get partial_voice_page = JNum 1.0"
  using voice_settings_merge_per_field [OF example_records(1)]
  by (simp add: example_records(1) lookup_def)

text \<open>
  Claim C2, as stated, fails: the getter of \<open>speed\<close> hands out a persisted 5.0
  as it is, and not the bound 1.2 of the slider's range \<open>[0.7, 1.2]\<close>.
\<close>

theorem speed_clamp_counterexample:
  "speed_get fast_speed_page = JNum 5.0
   \<and> speed_get fast_speed_page \<noteq> JNum (clamp_spec 0.7 1.2 5.0)"
  by (simp add: speed_get_def example_records(2) opt_member_obj lookup_def js_coalesce_def
        clamp_spec_def)

text \<open>
  Claim C2, amended. A persisted number resolves to itself for each of the four
  numeric voice settings, inside or outside the range of its slider: nothing is
  clamped and nothing is rejected.
\<close>

theorem numeric_settings_resolve_unclamped:
  assumes "voice_record s = JObj vs"
  shows "(lookup vs ''similarityBoost'' = JNum x \<longrightarrow> similarityBoost_get s = JNum x)
       \<and> (lookup vs ''stability'' = JNum x \<longrightarrow> stability_get s = JNum x)
       \<and> (lookup vs ''speed'' = JNum x \<longrightarrow> speed_get s = JNum x)
       \<and> (lookup vs ''style'' = JNum x \<longrightarrow> style_get s = JNum x)"
  using assms
  by (simp add: similarityBoost_get_def stability_get_def speed_get_def style_get_def
        opt_member_obj js_coalesce_def)

theorem numeric_settings_resolve_unclamped_witness:
  "voice_record fast_speed_page = JObj [(''speed'', JNum 5.0)]
   \<and> lookup [(''speed'', JNum 5.0)] ''speed'' = JNum 5.0
   \<and> \<not> (5.0 :: real) \<le> 1.2
   \<and> speed_get fast_speed_page = JNum 5.0"
  using numeric_settings_resolve_unclamped [OF example_records(2), where x = "5.0"]
  by (simp add: example_records(2) lookup_def)

lemma reset_record: "provider_record (handleResetVoiceSettings s) = JObj (spread_defaultOptions s)"
  by (simp add: handleResetVoiceSettings_def provider_record_def lookup_put)

lemma reset_apiKey:
  "apiKey_get (handleResetVoiceSettings s) = js_or (lookup (spread_defaultOptions s) ''apiKey'') (JStr '''')"
  by (simp add: apiKey_get_def reset_record opt_member_obj)

lemma keyed_page_defaults: "spread_defaultOptions keyed_page = [(''baseUrl'', JStr ''https://api.example/v1/'')]"
  by (simp add: spread_defaultOptions_def keyed_page_def page_of_def example_metadata_def)

lemma keyed_page_record: "provider_record keyed_page =
   JObj [(''apiKey'', JStr ''k''), (''voiceSettings'', JObj [(''stability'', JNum 0.9)])]"
  by (simp add: keyed_page_def provider_record_def page_of_def providerId_def lookup_def)

text \<open>
  Claim C3 at the record \<open>{apiKey: "k", voiceSettings: {stability: 0.9}}\<close>: after
  \<open>handleResetVoiceSettings\<close> the stability is back at its default 0.5, and the
  apiKey is gone as well, since the whole record is replaced by a copy of the
  default options.
\<close>

theorem reset_erases_apiKey:
  "apiKey_get keyed_page = JStr ''k''
   \<and> stability_get keyed_page = JNum 0.9
   \<and> stability_get (handleResetVoiceSettings keyed_page) = JNum 0.5
   \<and> apiKey_get (handleResetVoiceSettings keyed_page) = JStr ''''"
  by (simp add: apiKey_get_def stability_get_def voice_record_def reset_record keyed_page_defaults
        keyed_page_record opt_member_def lookup_def js_or_def js_coalesce_def)

lemma example_baseUrls:
  "opt_member (provider_record empty_baseUrl_page) ''baseUrl'' = JStr []"
  "default_baseUrl empty_baseUrl_page = JStr ''https://api.example/v1/''"
  "opt_member (provider_record custom_baseUrl_page) ''baseUrl'' = JStr ''https://proxy.example/v1/''"
  "default_baseUrl custom_baseUrl_page = JStr ''https://api.example/v1/''"
  "opt_member (provider_record empty_page) ''baseUrl'' = JUndefined"
  "default_baseUrl empty_page = JUndefined"
  by (simp_all add: empty_baseUrl_page_def custom_baseUrl_page_def empty_page_def provider_record_def page_of_def
        providerId_def lookup_def opt_member_def default_baseUrl_def example_metadata_def)

lemma truthy_present: "truthy v \<Longrightarrow> present v"
  by (cases v) (auto simp: present_def)

text \<open>
  Claim C7, as stated, fails: a persisted base URL that is present but empty does
  not win; the getter falls through to the default of the metadata.
\<close>

theorem baseUrl_empty_override_counterexample:
  "present (opt_member (provider_record empty_baseUrl_page) ''baseUrl'')
   \<and> baseUrl_priority_spec empty_baseUrl_page = JStr ''''
   \<and> baseUrl_get empty_baseUrl_page = JStr ''https://api.example/v1/''
   \<and> baseUrl_get empty_baseUrl_page \<noteq> baseUrl_priority_spec empty_baseUrl_page"
  by (simp add: baseUrl_get_def baseUrl_priority_spec_def example_baseUrls present_def js_or_def)

text \<open>
  Claim C7, amended. The effective base URL is the persisted \<open>baseUrl\<close> if it is
  truthy (for a string: present and not empty), otherwise the
  \<open>defaultOptions.baseUrl\<close> of the metadata if that is truthy, otherwise the empty
  string. This is the priority of the specification whenever each of the two
  values is either missing or truthy.
\<close>

theorem baseUrl_priority_truthy:
  "(truthy (opt_member (provider_record s) ''baseUrl'')
      \<longrightarrow> baseUrl_get s = opt_member (provider_record s) ''baseUrl'')
   \<and> (\<not> truthy (opt_member (provider_record s) ''baseUrl'') \<and> truthy (default_baseUrl s)
      \<longrightarrow> baseUrl_get s = default_baseUrl s)
   \<and> (\<not> truthy (opt_member (provider_record s) ''baseUrl'') \<and> \<not> truthy (default_baseUrl s)
      \<longrightarrow> baseUrl_get s = JStr '''')
   \<and> ((truthy (opt_member (provider_record s) ''baseUrl'')
          \<or> nullish (opt_member (provider_record s) ''baseUrl''))
        \<and> (truthy (default_baseUrl s) \<or> nullish (default_baseUrl s))
      \<longrightarrow> baseUrl_get s = baseUrl_priority_spec s)"
  by (auto simp: baseUrl_get_def js_or_def baseUrl_priority_spec_def present_def
           dest: truthy_present)

theorem baseUrl_priority_truthy_witness:
  "truthy (opt_member (provider_record custom_baseUrl_page) ''baseUrl'')
   \<and> truthy (default_baseUrl custom_baseUrl_page)
   \<and> baseUrl_get custom_baseUrl_page = JStr ''https://proxy.example/v1/''
   \<and> baseUrl_get custom_baseUrl_page = baseUrl_priority_spec custom_baseUrl_page
   \<and> \<not> truthy (opt_member (provider_record empty_baseUrl_page) ''baseUrl'')
   \<and> truthy (default_baseUrl empty_baseUrl_page)
   \<and> baseUrl_get empty_baseUrl_page = JStr ''https://api.example/v1/''
   \<and> \<not> truthy (opt_member (provider_record empty_page) ''baseUrl'')
   \<and> \<not> truthy (default_baseUrl empty_page)
   \<and> baseUrl_get empty_page = JStr ''''"
  using baseUrl_priority_truthy [of custom_baseUrl_page] baseUrl_priority_truthy [of empty_baseUrl_page]
    baseUrl_priority_truthy [of empty_page]
  by (auto simp add: example_baseUrls)

lemma busy_page_record:
  "provider_record busy_page = provider_record partial_voice_page"
  "providerMetadata busy_page = providerMetadata partial_voice_page"
  "busy_page \<noteq> partial_voice_page"
  by (simp_all add: busy_page_def partial_voice_page_def page_of_def provider_record_def
        providerId_def lookup_def)

text \<open>
  Claim C8. The effective configuration is a function of the provider's persisted
  record and of the provider's metadata alone: two pages that agree on both have
  the same effective configuration, whatever else differs in their state (the
  records of other providers, the playground's text, flags and messages).
\<close>

theorem effective_config_depends_on_record_and_metadata_only:
  assumes "provider_record s = provider_record t" and "providerMetadata s = providerMetadata t"
  shows "effective_config s = effective_config t"
  using assms
  by (simp add: effective_config_def apiKey_get_def baseUrl_get_def similarityBoost_get_def
        stability_get_def speed_get_def style_get_def useSpeakerBoost_get_def voice_record_def
        default_baseUrl_def)

theorem effective_config_depends_on_record_and_metadata_only_witness:
  "provider_record busy_page = provider_record partial_voice_page
   \<and> providerMetadata busy_page = providerMetadata partial_voice_page
   \<and> busy_page \<noteq> partial_voice_page
   \<and> effective_config busy_page = effective_config partial_voice_page"
  using effective_config_depends_on_record_and_metadata_only [OF busy_page_record(1,2)]
  by (simp add: busy_page_record)

subsection \<open>The setters on a well-shaped store\<close>

lemma init_record_object:
  assumes "\<not> truthy (lookup ps providerId) \<or> is_object (lookup ps providerId)"
  shows "\<exists>r. lookup (init_record ps) providerId = JObj r
           \<and> (lookup ps providerId = JObj r \<or> \<not> truthy (lookup ps providerId) \<and> r = [])"
  using assms by (auto simp: init_record_def lookup_put is_object_iff)

lemma set_record_field_object:
  assumes "lookup ps providerId = JObj r"
  shows "set_record_field ps k x = Inr (put ps providerId (JObj (put r k x)))"
  using assms by (simp add: set_record_field_def)

lemma record_after_set:
  assumes "lookup ps providerId = JObj r"
  shows "\<exists>ps'. set_record_field ps k x = Inr ps' \<and> lookup ps' providerId = JObj (put r k x)"
  using assms by (simp add: set_record_field_object lookup_put)

lemma init_voiceSettings_object:
  assumes "lookup ps providerId = JObj r"
      and "\<not> truthy (lookup r ''voiceSettings'') \<or> is_object (lookup r ''voiceSettings'')"
  shows "\<exists>ps' r' vs. init_voiceSettings ps = Inr ps' \<and> lookup ps' providerId = JObj r'
           \<and> lookup r' ''voiceSettings'' = JObj vs
           \<and> (lookup r ''voiceSettings'' = JObj vs \<or> \<not> truthy (lookup r ''voiceSettings'') \<and> vs = [])"
  using assms
  by (auto simp: init_voiceSettings_def member_def set_record_field_object lookup_put is_object_iff)

lemma set_voice_field_object:
  assumes "lookup ps providerId = JObj r" and "lookup r ''voiceSettings'' = JObj vs"
  shows "\<exists>ps' r'. set_voice_field ps k x = Inr ps' \<and> lookup ps' providerId = JObj r'
           \<and> lookup r' ''voiceSettings'' = JObj (put vs k x)"
  using assms by (simp add: set_voice_field_def member_def set_record_field_object lookup_put)

lemma commit_record: "commit s (Inr ps) = Inr (s\<lparr>providers := ps\<rparr>)"
  by (simp add: commit_def)

lemma record_setter_stores:
  assumes "record_absent_or_object s"
  shows "\<exists>ps' r'. set_record_field (init_record (providers s)) k x = Inr ps'
           \<and> lookup ps' providerId = JObj r' \<and> lookup r' k = x"
proof -
  from assms obtain r where "lookup (init_record (providers s)) providerId = JObj r"
    using init_record_object [of "providers s"]
    by (auto simp: record_absent_or_object_def provider_record_def)
  from record_after_set [OF this, of k x] show ?thesis
    by (auto simp: lookup_put)
qed

lemma voice_prepared:
  assumes "record_absent_or_object s" and "voiceSettings_absent_or_object s"
  shows "\<exists>ps' r' vs. init_voiceSettings (init_record (providers s)) = Inr ps'
           \<and> lookup ps' providerId = JObj r' \<and> lookup r' ''voiceSettings'' = JObj vs
           \<and> (voice_record s = JObj vs \<or> \<not> truthy (voice_record s) \<and> vs = [])"
proof -
  from assms(1) obtain r where r: "lookup (init_record (providers s)) providerId = JObj r"
      and r': "provider_record s = JObj r \<or> \<not> truthy (provider_record s) \<and> r = []"
    using init_record_object [of "providers s"]
    by (auto simp: record_absent_or_object_def provider_record_def)
  have vr: "voice_record s = lookup r ''voiceSettings''"
    using r' by (auto simp: voice_record_def opt_member_obj opt_member_falsy lookup_def)
  from assms(2) have "\<not> truthy (lookup r ''voiceSettings'') \<or> is_object (lookup r ''voiceSettings'')"
    by (simp add: voiceSettings_absent_or_object_def vr)
  from init_voiceSettings_object [OF r this] show ?thesis
    unfolding vr .
qed

lemma voice_setter_stores:
  assumes "record_absent_or_object s" and "voiceSettings_absent_or_object s"
  shows "\<exists>ps' ps'' r' vs'. init_voiceSettings (init_record (providers s)) = Inr ps'
           \<and> set_voice_field ps' k x = Inr ps''
           \<and> lookup ps'' providerId = JObj r' \<and> lookup r' ''voiceSettings'' = JObj vs'
           \<and> lookup vs' k = x"
proof -
  from voice_prepared [OF assms] obtain ps' r vs where
    p: "init_voiceSettings (init_record (providers s)) = Inr ps'"
    and r: "lookup ps' providerId = JObj r" and vs: "lookup r ''voiceSettings'' = JObj vs"
    by blast
  from set_voice_field_object [OF r vs, of k x] p show ?thesis
    by (auto simp: lookup_put)
qed

lemma style_setter_stores:
  assumes "record_absent_or_object s" and "voiceSettings_absent_or_object s"
  shows "\<exists>ps' ps'' r' vs. init_voiceSettings (init_record (providers s)) = Inr ps'
           \<and> set_record_field ps' ''style'' x = Inr ps''
           \<and> lookup ps'' providerId = JObj r' \<and> lookup r' ''style'' = x
           \<and> lookup r' ''voiceSettings'' = JObj vs
           \<and> (voice_record s = JObj vs \<or> \<not> truthy (voice_record s) \<and> vs = [])"
proof -
  from voice_prepared [OF assms] obtain ps' r vs where
    p: "init_voiceSettings (init_record (providers s)) = Inr ps'"
    and r: "lookup ps' providerId = JObj r" and vs: "lookup r ''voiceSettings'' = JObj vs"
    and old: "voice_record s = JObj vs \<or> \<not> truthy (voice_record s) \<and> vs = []"
    by blast
  from record_after_set [OF r, of "''style''" x] obtain ps'' where
    q: "set_record_field ps' ''style'' x = Inr ps''"
    and r'': "lookup ps'' providerId = JObj (put r ''style'' x)"
    by blast
  have "lookup (put r ''style'' x) ''style'' = x"
    and "lookup (put r ''style'' x) ''voiceSettings'' = JObj vs"
    using vs by (simp_all add: lookup_put)
  with p q r'' old show ?thesis by blast
qed

lemma providers_record: "provider_record (s\<lparr>providers := ps\<rparr>) = lookup ps providerId"
  by (simp add: provider_record_def)

lemma apiKey_set_ok:
  assumes "record_absent_or_object s"
  shows "\<exists>s'. apiKey_set s x = Inr s' \<and> is_object (provider_record s')
           \<and> opt_member (provider_record s') ''apiKey'' = x"
  using record_setter_stores [OF assms, of "''apiKey''" x]
  by (auto simp: apiKey_set_def commit_record providers_record opt_member_obj)

lemma baseUrl_set_ok:
  assumes "record_absent_or_object s"
  shows "\<exists>s'. baseUrl_set s x = Inr s' \<and> is_object (provider_record s')
           \<and> opt_member (provider_record s') ''baseUrl'' = x"
  using record_setter_stores [OF assms, of "''baseUrl''" x]
  by (auto simp: baseUrl_set_def commit_record providers_record opt_member_obj)

lemma voice_record_of: "provider_record s = JObj r \<Longrightarrow> voice_record s = lookup r ''voiceSettings''"
  by (simp add: voice_record_def opt_member_obj)

lemma similarityBoost_set_ok:
  assumes "record_absent_or_object s" and "voiceSettings_absent_or_object s"
  shows "\<exists>s'. similarityBoost_set s x = Inr s' \<and> is_object (provider_record s')
           \<and> is_object (voice_record s') \<and> opt_member (voice_record s') ''similarityBoost'' = x"
  using voice_setter_stores [OF assms, of "''similarityBoost''" x]
  by (auto simp: similarityBoost_set_def commit_record providers_record voice_record_of opt_member_obj)

lemma stability_set_ok:
  assumes "record_absent_or_object s" and "voiceSettings_absent_or_object s"
  shows "\<exists>s'. stability_set s x = Inr s' \<and> is_object (provider_record s')
           \<and> is_object (voice_record s') \<and> opt_member (voice_record s') ''stability'' = x"
  using voice_setter_stores [OF assms, of "''stability''" x]
  by (auto simp: stability_set_def commit_record providers_record voice_record_of opt_member_obj)

lemma speed_set_ok:
  assumes "record_absent_or_object s" and "voiceSettings_absent_or_object s"
  shows "\<exists>s'. speed_set s x = Inr s' \<and> is_object (provider_record s')
           \<and> is_object (voice_record s') \<and> opt_member (voice_record s') ''speed'' = x"
  using voice_setter_stores [OF assms, of "''speed''" x]
  by (auto simp: speed_set_def commit_record providers_record voice_record_of opt_member_obj)

lemma useSpeakerBoost_set_ok:
  assumes "record_absent_or_object s" and "voiceSettings_absent_or_object s"
  shows "\<exists>s'. useSpeakerBoost_set s x = Inr s' \<and> is_object (provider_record s')
           \<and> is_object (voice_record s') \<and> opt_member (voice_record s') ''useSpeakerBoost'' = x"
  using voice_setter_stores [OF assms, of "''useSpeakerBoost''" x]
  by (auto simp: useSpeakerBoost_set_def commit_record providers_record voice_record_of opt_member_obj)

lemma style_set_ok:
  assumes "record_absent_or_object s" and "voiceSettings_absent_or_object s"
  shows "\<exists>s'. style_set s x = Inr s' \<and> is_object (provider_record s')
           \<and> is_object (voice_record s') \<and> opt_member (provider_record s') ''style'' = x
           \<and> opt_member (voice_record s') ''style'' = opt_member (voice_record s) ''style''"
  using style_setter_stores [OF assms, of x]
  by (auto simp: style_set_def commit_record providers_record voice_record_of opt_member_obj
        opt_member_falsy lookup_def)

lemma similarityBoost_roundtrip:
  assumes "record_absent_or_object s" and "voiceSettings_absent_or_object s" and "\<not> nullish x"
  shows "\<exists>s'. similarityBoost_set s x = Inr s' \<and> similarityBoost_get s' = x"
  using similarityBoost_set_ok [OF assms(1,2), of x] assms(3)
  by (auto simp: similarityBoost_get_def js_coalesce_def)

lemma stability_roundtrip:
  assumes "record_absent_or_object s" and "voiceSettings_absent_or_object s" and "\<not> nullish x"
  shows "\<exists>s'. stability_set s x = Inr s' \<and> stability_get s' = x"
  using stability_set_ok [OF assms(1,2), of x] assms(3)
  by (auto simp: stability_get_def js_coalesce_def)

lemma speed_roundtrip:
  assumes "record_absent_or_object s" and "voiceSettings_absent_or_object s" and "\<not> nullish x"
  shows "\<exists>s'. speed_set s x = Inr s' \<and> speed_get s' = x"
  using speed_set_ok [OF assms(1,2), of x] assms(3)
  by (auto simp: speed_get_def js_coalesce_def)

lemma useSpeakerBoost_roundtrip:
  assumes "record_absent_or_object s" and "voiceSettings_absent_or_object s"
  shows "\<exists>s'. useSpeakerBoost_set s (JBool b) = Inr s' \<and> useSpeakerBoost_get s' = JBool b"
  using useSpeakerBoost_set_ok [OF assms(1,2), of "JBool b"]
  by (auto simp: useSpeakerBoost_get_def js_not_false_def)

lemma style_set_keeps_style_get:
  assumes "record_absent_or_object s" and "voiceSettings_absent_or_object s"
  shows "\<exists>s'. style_set s x = Inr s' \<and> style_get s' = style_get s"
  using style_set_ok [OF assms, of x]
  by (auto simp: style_get_def)

text \<open>
  Claim C9 at the empty store and the value 0.5: the setter of \<open>style\<close> succeeds
  and stores 0.5 in the property \<open>style\<close> of the record, the voice settings have
  no \<open>style\<close>, and the getter still returns the default 0.
\<close>

theorem style_set_then_get_loses_value:
  "(case style_set empty_page (JNum 0.5) of
      Inl e \<Rightarrow> False
    | Inr s' \<Rightarrow> style_get s' = JNum 0
               \<and> opt_member (voice_record s') ''style'' = JUndefined
               \<and> opt_member (provider_record s') ''style'' = JNum 0.5)"
  by (simp add: style_set_def commit_def init_voiceSettings_def init_record_def set_record_field_def
        member_def empty_page_def page_of_def providerId_def lookup_def style_get_def
        voice_record_def provider_record_def opt_member_def js_coalesce_def)

text \<open>
  Claim C10, as stated, fails: from a store whose record is a truthy primitive,
  or whose record has a truthy primitive as \<open>voiceSettings\<close>, the assignment of
  the setter throws a TypeError.
\<close>

theorem setter_on_primitive_counterexample:
  "provider_record legacy_page = JStr ''legacy''
   \<and> apiKey_set legacy_page (JStr ''sk-1'') = Inl TypeError
   \<and> voice_record flagged_voice_page = JBool True
   \<and> speed_set flagged_voice_page (JNum 0.9) = Inl TypeError"
  by (simp add: legacy_page_def flagged_voice_page_def page_of_def provider_record_def
        voice_record_def providerId_def lookup_def opt_member_def apiKey_set_def speed_set_def
        commit_def init_record_def init_voiceSettings_def set_record_field_def set_voice_field_def
        member_def)

text \<open>
  Claim C10, amended. When the provider's record is missing (or falsy) or an object, the
  setters of \<open>apiKey\<close> and \<open>baseUrl\<close> succeed, leave an object as the record and
  store the value in it; when moreover the record's \<open>voiceSettings\<close> is missing (or
  falsy) or an object, each voice setter succeeds, leaves objects as the record
  and as its \<open>voiceSettings\<close>, and stores the value (the setter of \<open>style\<close> in
  the record's own \<open>style\<close>, the others in \<open>voiceSettings\<close>).
\<close>

theorem setters_create_missing_records:
  assumes "record_absent_or_object s"
  shows "(\<exists>s'. apiKey_set s x = Inr s' \<and> is_object (provider_record s')
              \<and> opt_member (provider_record s') ''apiKey'' = x)
       \<and> (\<exists>s'. baseUrl_set s x = Inr s' \<and> is_object (provider_record s')
              \<and> opt_member (provider_record s') ''baseUrl'' = x)
       \<and> (voiceSettings_absent_or_object s \<longrightarrow>
            (\<exists>s'. similarityBoost_set s x = Inr s' \<and> is_object (provider_record s')
                 \<and> is_object (voice_record s')
                 \<and> opt_member (voice_record s') ''similarityBoost'' = x)
          \<and> (\<exists>s'. stability_set s x = Inr s' \<and> is_object (provider_record s')
                 \<and> is_object (voice_record s')
                 \<and> opt_member (voice_record s') ''stability'' = x)
          \<and> (\<exists>s'. speed_set s x = Inr s' \<and> is_object (provider_record s')
                 \<and> is_object (voice_record s')
                 \<and> opt_member (voice_record s') ''speed'' = x)
          \<and> (\<exists>s'. style_set s x = Inr s' \<and> is_object (provider_record s')
                 \<and> is_object (voice_record s')
                 \<and> opt_member (provider_record s') ''style'' = x)
          \<and> (\<exists>s'. useSpeakerBoost_set s x = Inr s' \<and> is_object (provider_record s')
                 \<and> is_object (voice_record s')
                 \<and> opt_member (voice_record s') ''useSpeakerBoost'' = x))"
proof (intro conjI impI)
  show "\<exists>s'. apiKey_set s x = Inr s' \<and> is_object (provider_record s')
              \<and> opt_member (provider_record s') ''apiKey'' = x"
    by (rule apiKey_set_ok [OF assms])
  show "\<exists>s'. baseUrl_set s x = Inr s' \<and> is_object (provider_record s')
              \<and> opt_member (provider_record s') ''baseUrl'' = x"
    by (rule baseUrl_set_ok [OF assms])
next
  assume v: "voiceSettings_absent_or_object s"
  show "\<exists>s'. similarityBoost_set s x = Inr s' \<and> is_object (provider_record s')
                 \<and> is_object (voice_record s')
                 \<and> opt_member (voice_record s') ''similarityBoost'' = x"
    by (rule similarityBoost_set_ok [OF assms v])
next
  assume v: "voiceSettings_absent_or_object s"
  show "\<exists>s'. stability_set s x = Inr s' \<and> is_object (provider_record s')
                 \<and> is_object (voice_record s')
                 \<and> opt_member (voice_record s') ''stability'' = x"
    by (rule stability_set_ok [OF assms v])
next
  assume v: "voiceSettings_absent_or_object s"
  show "\<exists>s'. speed_set s x = Inr s' \<and> is_object (provider_record s')
                 \<and> is_object (voice_record s')
                 \<and> opt_member (voice_record s') ''speed'' = x"
    by (rule speed_set_ok [OF assms v])
next
  assume v: "voiceSettings_absent_or_object s"
  from style_set_ok [OF assms v, of x]
  show "\<exists>s'. style_set s x = Inr s' \<and> is_object (provider_record s')
                 \<and> is_object (voice_record s')
                 \<and> opt_member (provider_record s') ''style'' = x"
    by blast
next
  assume v: "voiceSettings_absent_or_object s"
  show "\<exists>s'. useSpeakerBoost_set s x = Inr s' \<and> is_object (provider_record s')
                 \<and> is_object (voice_record s')
                 \<and> opt_member (voice_record s') ''useSpeakerBoost'' = x"
    by (rule useSpeakerBoost_set_ok [OF assms v])
qed

theorem setters_create_missing_records_witness:
  "record_absent_or_object empty_page \<and> voiceSettings_absent_or_object empty_page
   \<and> (\<exists>s'. apiKey_set empty_page (JStr ''sk-1'') = Inr s' \<and> is_object (provider_record s')
          \<and> opt_member (provider_record s') ''apiKey'' = JStr ''sk-1'')
   \<and> (\<exists>s'. speed_set empty_page (JNum 0.9) = Inr s' \<and> is_object (provider_record s')
          \<and> is_object (voice_record s')
          \<and> opt_member (voice_record s') ''speed'' = JNum 0.9)"
proof -
  have a: "record_absent_or_object empty_page"
    by (simp add: record_absent_or_object_def example_records)
  have b: "voiceSettings_absent_or_object empty_page"
    by (simp add: voiceSettings_absent_or_object_def example_records)
  from setters_create_missing_records [OF a, of "JStr ''sk-1''"]
    setters_create_missing_records [OF a, of "JNum 0.9"] a b
  show ?thesis by blast
qed

section \<open>Properties of the llm store\<close>

lemma setupOpenAI_initializes:
  assumes "setupOpenAI sdk s options = (Returned (), s')"
  shows "is_returned (stream s' model content) \<and> is_returned (models s')"
  using assms
  by (auto simp: setupOpenAI_def stream_def models_def split: outcome.splits)

lemma failed_setup_keeps_provider:
  assumes "fst (setupOpenAI sdk s options) \<noteq> Returned ()"
  shows "openAIProvider (snd (setupOpenAI sdk s options)) = openAIProvider s"
  using assms by (auto simp: setupOpenAI_def split: outcome.splits)

lemma refused_setup_constructs_nothing:
  assumes "sdk_requires_apiKey sdk" and "settings_apiKey options = None"
  shows "snd (setupOpenAI sdk s options) = s"
proof -
  from assms have "\<not> is_returned (new_OpenAI sdk options True)"
    by (simp add: sdk_requires_apiKey_def)
  then obtain e where "new_OpenAI sdk options True = Thrown e"
    by (cases "new_OpenAI sdk options True") auto
  then show ?thesis by (simp add: setupOpenAI_def)
qed

lemma refused_setups_construct_nothing:
  assumes "sdk_requires_apiKey sdk" and "\<forall>options \<in> set optss. settings_apiKey options = None"
  shows "setupOpenAI_each sdk s optss = s"
  using assms(2)
proof (induction optss arbitrary: s)
  case Nil
  show ?case by simp
next
  case (Cons options rest)
  then have "snd (setupOpenAI sdk s options) = s"
    by (simp add: refused_setup_constructs_nothing [OF assms(1)])
  with Cons show ?case by simp
qed

lemma strict_sdk_requires_apiKey: "sdk_requires_apiKey strict_sdk"
  by (simp add: sdk_requires_apiKey_def strict_sdk_def)

lemma lenient_sdk_constructs:
  "snd (setupOpenAI lenient_sdk llm_initial no_key_options)
     = \<lparr> openAI = Some None, openAIProvider = Some None \<rparr>"
  by (simp add: setupOpenAI_def lenient_sdk_def llm_initial_def no_key_options_def)

section \<open>Properties of the instance cache\<close>

lemma getInstance_configured:
  assumes "getDescriptor R pid = Some d"
      and "\<not> apiKey_unset R (resolve R d (persisted reg pid))"
  shows "getInstance R pid reg =
           (if \<exists>inst. cache reg pid = Some (fingerprint R (resolve R d (persisted reg pid)), inst)
            then (Inr (snd (the (cache reg pid))), reg)
            else construct pid (resolve R d (persisted reg pid))
                   (fingerprint R (resolve R d (persisted reg pid))) reg)"
proof (cases "cache reg pid")
  case None
  with assms show ?thesis by (simp add: getInstance_def Let_def)
next
  case (Some e)
  obtain fp inst where e: "e = (fp, inst)" by (cases e)
  with Some assms show ?thesis by (simp add: getInstance_def Let_def)
qed

lemma getInstance_Inr_configured:
  assumes "getInstance R pid reg = (Inr i, reg')"
  shows "\<exists>d. getDescriptor R pid = Some d \<and> \<not> apiKey_unset R (resolve R d (persisted reg pid))"
proof (cases "getDescriptor R pid")
  case None
  with assms show ?thesis by (simp add: getInstance_def)
next
  case (Some d)
  show ?thesis
  proof (cases "apiKey_unset R (resolve R d (persisted reg pid))")
    case True
    with Some assms show ?thesis by (simp add: getInstance_def Let_def)
  next
    case False
    with Some show ?thesis by simp
  qed
qed

lemma construct_result:
  "construct pid eff fp reg =
     (Inr \<lparr> instance_ref = constructed reg, instance_config = eff \<rparr>,
      reg\<lparr>cache := (cache reg)(pid := Some (fp, \<lparr> instance_ref = constructed reg, instance_config = eff \<rparr>)),
          constructed := Suc (constructed reg)\<rparr>)"
  by (simp add: construct_def Let_def)

lemma getInstance_cached:
  assumes "getInstance R pid reg = (Inr i, reg')"
  shows "\<exists>d. getDescriptor R pid = Some d
            \<and> \<not> apiKey_unset R (resolve R d (persisted reg' pid))
            \<and> persisted reg' = persisted reg
            \<and> cache reg' pid = Some (fingerprint R (resolve R d (persisted reg' pid)), i)"
proof -
  from getInstance_Inr_configured [OF assms] obtain d where
    d: "getDescriptor R pid = Some d" and k: "\<not> apiKey_unset R (resolve R d (persisted reg pid))"
    by blast
  show ?thesis
  proof (cases "\<exists>inst. cache reg pid = Some (fingerprint R (resolve R d (persisted reg pid)), inst)")
    case True
    with assms d k show ?thesis
      by (auto simp: getInstance_configured [OF d k])
  next
    case False
    with assms have "i = \<lparr> instance_ref = constructed reg, instance_config = resolve R d (persisted reg pid) \<rparr>"
      and "reg' = reg\<lparr>cache := (cache reg)(pid := Some (fingerprint R (resolve R d (persisted reg pid)), i)),
          constructed := Suc (constructed reg)\<rparr>"
      by (auto simp: getInstance_configured [OF d k] construct_result)
    with d k show ?thesis by simp
  qed
qed

lemma getInstance_again:
  assumes "getInstance R pid reg = (Inr i, reg')"
  shows "getInstance R pid reg' = (Inr i, reg')"
proof -
  from getInstance_cached [OF assms] obtain d where
    d: "getDescriptor R pid = Some d" and k: "\<not> apiKey_unset R (resolve R d (persisted reg' pid))"
    and c: "cache reg' pid = Some (fingerprint R (resolve R d (persisted reg' pid)), i)"
    by blast
  show ?thesis by (simp add: getInstance_configured [OF d k] c)
qed

lemma getInstance_ref_used:
  assumes "cache_refs_used reg" and "getInstance R pid reg = (Inr i, reg')"
  shows "instance_ref i < constructed reg'"
proof -
  from getInstance_Inr_configured [OF assms(2)] obtain d where
    d: "getDescriptor R pid = Some d" and k: "\<not> apiKey_unset R (resolve R d (persisted reg pid))"
    by blast
  show ?thesis
  proof (cases "\<exists>inst. cache reg pid = Some (fingerprint R (resolve R d (persisted reg pid)), inst)")
    case True
    with assms show ?thesis
      by (auto simp: getInstance_configured [OF d k] cache_refs_used_def)
  next
    case False
    with assms(2) show ?thesis
      by (auto simp: getInstance_configured [OF d k] construct_result)
  qed
qed

lemma update_config_fields:
  "persisted (update_config mrg pid u reg) pid = Some (mrg (persisted reg pid) u)"
  "cache (update_config mrg pid u reg) pid = None"
  "constructed (update_config mrg pid u reg) = constructed reg"
  by (simp_all add: update_config_def)

lemma getInstance_after_update:
  assumes "getInstance R pid (update_config mrg pid u reg) = (Inr i, reg')"
  shows "instance_ref i = constructed reg"
proof -
  from getInstance_Inr_configured [OF assms] obtain d where
    d: "getDescriptor R pid = Some d"
    and k: "\<not> apiKey_unset R (resolve R d (persisted (update_config mrg pid u reg) pid))"
    by blast
  from assms show ?thesis
    by (auto simp: getInstance_configured [OF d k] update_config_fields construct_result)
qed

lemma getInstance_after_update_returns:
  assumes "getDescriptor R pid = Some d"
      and "\<not> apiKey_unset R (resolve R d (Some (mrg (persisted reg pid) u)))"
  shows "\<exists>i reg'. getInstance R pid (update_config mrg pid u reg) = (Inr i, reg')"
proof -
  from assms(2)
  have k: "\<not> apiKey_unset R (resolve R d (persisted (update_config mrg pid u reg) pid))"
    by (simp add: update_config_fields)
  show ?thesis
    by (simp add: getInstance_configured [OF assms(1) k] update_config_fields construct_result)
qed

lemma registry_initial_refs_used: "cache_refs_used registry_initial"
  by (simp add: cache_refs_used_def registry_initial_def)

lemma update_config_keeps_refs_used:
  assumes "cache_refs_used reg"
  shows "cache_refs_used (update_config mrg pid u reg)"
  using assms by (simp add: update_config_def cache_refs_used_def)

lemma construct_keeps_refs_used:
  assumes "cache_refs_used reg"
  shows "cache_refs_used (snd (construct pid eff fp reg))"
  using assms by (auto simp: construct_result cache_refs_used_def less_Suc_eq)

lemma getInstance_keeps_refs_used:
  assumes "cache_refs_used reg"
  shows "cache_refs_used (snd (getInstance R pid reg))"
proof (cases "getDescriptor R pid")
  case None
  with assms show ?thesis by (simp add: getInstance_def)
next
  case (Some d)
  show ?thesis
  proof (cases "apiKey_unset R (resolve R d (persisted reg pid))")
    case True
    with Some assms show ?thesis by (simp add: getInstance_def Let_def)
  next
    case False
    from construct_keeps_refs_used [OF assms] assms show ?thesis
      by (simp add: getInstance_configured [OF Some False])
  qed
qed

text \<open>
  Claim C5. Once \<open>getInstance\<close> has returned an instance for a provider, the next
  call with no change in between returns the same instance and constructs
  nothing; after an \<open>update\<close> of that provider's configuration the next call never
  returns that instance again: what it returns is a new construction, and it does
  return one whenever the updated configuration still resolves an apiKey.
\<close>

theorem cached_instance_identity:
  assumes "cache_refs_used reg" and "getInstance R pid reg = (Inr i1, reg1)"
  shows "getInstance R pid reg1 = (Inr i1, reg1)
       \<and> (\<forall>i2 reg2. getInstance R pid (update_config mrg pid u reg1) = (Inr i2, reg2)
             \<longrightarrow> instance_ref i2 \<noteq> instance_ref i1)
       \<and> (\<forall>d. getDescriptor R pid = Some d
               \<and> \<not> apiKey_unset R (resolve R d (Some (mrg (persisted reg1 pid) u)))
             \<longrightarrow> (\<exists>i2 reg2. getInstance R pid (update_config mrg pid u reg1) = (Inr i2, reg2)))"
proof (intro conjI allI impI)
  show "getInstance R pid reg1 = (Inr i1, reg1)"
    by (rule getInstance_again [OF assms(2)])
next
  fix i2 reg2
  assume a: "getInstance R pid (update_config mrg pid u reg1) = (Inr i2, reg2)"
  have "instance_ref i1 < constructed reg1"
    by (rule getInstance_ref_used [OF assms])
  moreover have "instance_ref i2 = constructed reg1"
    by (rule getInstance_after_update [OF a])
  ultimately show "instance_ref i2 \<noteq> instance_ref i1" by simp
next
  fix d
  assume h: "getDescriptor R pid = Some d
            \<and> \<not> apiKey_unset R (resolve R d (Some (mrg (persisted reg1 pid) u)))"
  from h have a: "getDescriptor R pid = Some d" ..
  from h have b: "\<not> apiKey_unset R (resolve R d (Some (mrg (persisted reg1 pid) u)))" ..
  show "\<exists>i2 reg2. getInstance R pid (update_config mrg pid u reg1) = (Inr i2, reg2)"
    by (rule getInstance_after_update_returns [where mrg = mrg and u = u and reg = reg1, OF a b])
qed

theorem cached_instance_identity_witness:
  "cache_refs_used configured_registry
   \<and> (\<exists>i1 reg1. getInstance example_resolver ''elevenlabs'' configured_registry = (Inr i1, reg1)
        \<and> getInstance example_resolver ''elevenlabs'' reg1 = (Inr i1, reg1)
        \<and> (\<exists>i2 reg2. getInstance example_resolver ''elevenlabs''
                          (update_config example_merge ''elevenlabs'' ''k2'' reg1) = (Inr i2, reg2)
                      \<and> instance_ref i2 \<noteq> instance_ref i1))"
proof -
  have inv: "cache_refs_used configured_registry"
    unfolding configured_registry_def
    by (rule update_config_keeps_refs_used [OF registry_initial_refs_used])
  have d: "getDescriptor example_resolver ''elevenlabs'' = Some ()"
    by (simp add: example_resolver_def)
  have k: "\<not> apiKey_unset example_resolver (resolve example_resolver () (Some x))" for x
    by (simp add: example_resolver_def)
  from getInstance_after_update_returns
         [where mrg = example_merge and u = "''k''" and reg = registry_initial, OF d k]
  obtain i1 reg1 where
    g: "getInstance example_resolver ''elevenlabs'' configured_registry = (Inr i1, reg1)"
    unfolding configured_registry_def by blast
  note c = cached_instance_identity [OF inv g, where mrg = example_merge and u = "''k2''"]
  from c d k obtain i2 reg2 where
    g2: "getInstance example_resolver ''elevenlabs''
           (update_config example_merge ''elevenlabs'' ''k2'' reg1) = (Inr i2, reg2)"
    by blast
  with c have "instance_ref i2 \<noteq> instance_ref i1" by blast
  with inv g c g2 show ?thesis by blast
qed

section \<open>Failure while the apiKey is unset\<close>

lemma no_instance_no_speech:
  "fst (generateTestSpeech env None s) = s
   \<and> (\<forall>request. GenerateSpeech request \<notin> set (snd (generateTestSpeech env None s)))"
  by (simp add: generateTestSpeech_def)

lemma unset_apiKey_NotConfigured:
  assumes "getDescriptor R pid = Some d" and "apiKey_unset R (resolve R d (persisted reg pid))"
  shows "getInstance R pid reg = (Inl NotConfigured, reg)"
  using assms by (simp add: getInstance_def Let_def)

lemma example_resolver_unset:
  "getDescriptor example_resolver ''elevenlabs'' = Some ()"
  "apiKey_unset example_resolver
     (resolve example_resolver () (persisted (registry_initial :: (string, string option, string option) registry) ''elevenlabs''))"
  by (simp_all add: example_resolver_def registry_initial_def)

text \<open>
  Claim C4, as stated, fails for a capability invoked through the llm store. The
  store has no check of the apiKey of its own. Given options without an apiKey
  and an SDK that refuses them, nothing is set up and \<open>stream\<close> and \<open>models\<close>
  throw; they return no failure value. Given an SDK that accepts them, a client
  is constructed from the options without apiKey.
\<close>

theorem keyless_llm_call_counterexample:
  "settings_apiKey no_key_options = None
   \<and> stream (setupOpenAI_each strict_sdk llm_initial [no_key_options]) ''gpt-4o-mini'' ''Hello''
       = Thrown ''OpenAI not initialized''
   \<and> \<not> is_returned (stream (setupOpenAI_each strict_sdk llm_initial [no_key_options])
                          ''gpt-4o-mini'' ''Hello'')
   \<and> \<not> is_returned (models (setupOpenAI_each strict_sdk llm_initial [no_key_options]))
   \<and> openAI (setupOpenAI_each lenient_sdk llm_initial [no_key_options]) = Some None"
  by (simp add: setupOpenAI_def strict_sdk_def lenient_sdk_def no_key_options_def llm_initial_def
        stream_def models_def)

text \<open>
  Claim C4, amended. While the resolved apiKey of a registered provider is
  unset, requesting its instance fails with the returned value \<open>NotConfigured\<close>
  and leaves the registry as it was, so that nothing is constructed; the
  settings page, given no instance, changes nothing and sends no request to a
  provider. A capability invoked through the llm store fails in another way: when
  every options object given to \<open>setupOpenAI\<close> so far has its apiKey unset and
  the SDK's client constructor refuses such options, the store still holds no
  client, and \<open>stream\<close> and \<open>models\<close> throw \<open>Error('OpenAI not initialized')\<close>.
\<close>

theorem unset_apiKey_failure_modes:
  "(getDescriptor R pid = Some d \<and> apiKey_unset R (resolve R d (persisted reg pid))
      \<longrightarrow> getInstance R pid reg = (Inl NotConfigured, reg))
   \<and> fst (generateTestSpeech env None s) = s
   \<and> (\<forall>request. GenerateSpeech request \<notin> set (snd (generateTestSpeech env None s)))
   \<and> (sdk_requires_apiKey sdk \<and> (\<forall>options \<in> set optss. settings_apiKey options = None)
      \<longrightarrow> setupOpenAI_each sdk llm_initial optss = llm_initial
          \<and> stream (setupOpenAI_each sdk llm_initial optss) model content
              = Thrown ''OpenAI not initialized''
          \<and> models (setupOpenAI_each sdk llm_initial optss) = Thrown ''OpenAI not initialized'')"
proof (intro conjI impI)
  assume "getDescriptor R pid = Some d \<and> apiKey_unset R (resolve R d (persisted reg pid))"
  then show "getInstance R pid reg = (Inl NotConfigured, reg)"
    by (simp add: unset_apiKey_NotConfigured)
next
  show "fst (generateTestSpeech env None s) = s"
    by (simp add: no_instance_no_speech)
  show "\<forall>request. GenerateSpeech request \<notin> set (snd (generateTestSpeech env None s))"
    by (simp add: no_instance_no_speech)
next
  assume h: "sdk_requires_apiKey sdk \<and> (\<forall>options \<in> set optss. settings_apiKey options = None)"
  then show "setupOpenAI_each sdk llm_initial optss = llm_initial"
    by (simp add: refused_setups_construct_nothing)
next
  assume h: "sdk_requires_apiKey sdk \<and> (\<forall>options \<in> set optss. settings_apiKey options = None)"
  then have "setupOpenAI_each sdk llm_initial optss = llm_initial"
    by (simp add: refused_setups_construct_nothing)
  then show "stream (setupOpenAI_each sdk llm_initial optss) model content
               = Thrown ''OpenAI not initialized''"
    by (simp add: stream_def llm_initial_def)
next
  assume h: "sdk_requires_apiKey sdk \<and> (\<forall>options \<in> set optss. settings_apiKey options = None)"
  then have "setupOpenAI_each sdk llm_initial optss = llm_initial"
    by (simp add: refused_setups_construct_nothing)
  then show "models (setupOpenAI_each sdk llm_initial optss) = Thrown ''OpenAI not initialized''"
    by (simp add: models_def llm_initial_def)
qed

theorem unset_apiKey_failure_modes_witness:
  "getDescriptor example_resolver ''elevenlabs'' = Some ()
   \<and> apiKey_unset example_resolver
       (resolve example_resolver ()
          (persisted (registry_initial :: (string, string option, string option) registry) ''elevenlabs''))
   \<and> getInstance example_resolver ''elevenlabs'' registry_initial = (Inl NotConfigured, registry_initial)
   \<and> fst (generateTestSpeech echo_env None partial_voice_page) = partial_voice_page
   \<and> sdk_requires_apiKey strict_sdk
   \<and> settings_apiKey no_key_options = None
   \<and> setupOpenAI_each strict_sdk llm_initial [no_key_options, no_key_options] = llm_initial
   \<and> stream (setupOpenAI_each strict_sdk llm_initial [no_key_options, no_key_options])
        ''gpt-4o-mini'' ''Hello'' = Thrown ''OpenAI not initialized''
   \<and> models (setupOpenAI_each strict_sdk llm_initial [no_key_options, no_key_options])
       = Thrown ''OpenAI not initialized''"
proof -
  have k: "settings_apiKey no_key_options = None"
    by (simp add: no_key_options_def)
  note t = unset_apiKey_failure_modes
             [where R = example_resolver and pid = "''elevenlabs''" and d = "()"
                and reg = "registry_initial :: (string, string option, string option) registry"
                and env = echo_env and s = partial_voice_page
                and sdk = strict_sdk and optss = "[no_key_options, no_key_options]"
                and model = "''gpt-4o-mini''" and content = "''Hello''"]
  have "\<forall>options \<in> set [no_key_options, no_key_options]. settings_apiKey options = None"
    by (simp add: k)
  with t example_resolver_unset strict_sdk_requires_apiKey k show ?thesis
    by blast
qed

end
